theory Spec2Isabelle
  imports Complex_Main
begin

section \<open>Data model (state.ts)\<close>

text \<open>
  A JavaScript string is modelled as a \<^typ>\<open>string\<close>, one \<^typ>\<open>char\<close> per code unit;
  the models of \<open>trim\<close> and \<open>toLowerCase\<close> below are exact on code units below 256.
  A JavaScript \<open>number\<close> that carries a progress value is modelled as a \<^typ>\<open>real\<close>
  (a finite number: JSON has no literal for NaN), the counter \<open>busyCount\<close> as an
  \<^typ>\<open>int\<close> (it stays far below \<open>2^53\<close>). An optional or nullable field is an
  \<^typ>\<open>'a option\<close>, \<open>None\<close> standing for both \<open>undefined\<close> and \<open>null\<close>.
  The field \<open>id\<close> of a queue item is named \<open>item_id\<close>, the fields of \<open>state.preview\<close>
  \<open>preview_id\<close> and \<open>preview_url\<close>.
\<close>

record QueueItem =
  item_id :: string
  youtube_url :: string
  title :: string
  artist :: string
  thumbnail_url :: "string option"
  duration :: "real option"
  state :: string
  progress :: "real option"
  error :: "string option"

record VersionInfo =
  current :: string
  latest :: "string option"
  is_latest :: "bool option"
  consistency :: "string option"
  release_url :: "string option"

record PreviewResponse =
  url :: string

record Preview =
  preview_id :: string
  preview_url :: string

definition API_BASE :: string where
  "API_BASE = ''http://127.0.0.1:47815''"

text \<open>The type of the exported object \<open>state\<close>, and its initial value.\<close>

record State =
  queue :: "QueueItem list"
  version :: "VersionInfo option"
  format :: string
  exportFormat :: string
  dir :: string
  preview :: Preview
  isBusy :: bool
  busyCount :: int
  busyMessage :: string
  urlError :: string
  isAdding :: bool

definition initialState :: State where
  "initialState =
     \<lparr>queue = [], version = None, format = ''flac'', exportFormat = ''xlsx'', dir = [],
      preview = \<lparr>preview_id = [], preview_url = []\<rparr>, isBusy = False, busyCount = 0,
      busyMessage = [], urlError = [], isAdding = False\<rparr>"

section \<open>Formatting utilities (utils.ts)\<close>

subsection \<open>String primitives of the platform\<close>

text \<open>\<open>s.replace(/c/g, r)\<close> for a single character \<open>c\<close>: every occurrence is replaced.\<close>

definition replaceAll :: "char \<Rightarrow> string \<Rightarrow> string \<Rightarrow> string" where
  "replaceAll c r s = concat (map (\<lambda>x. if x = c then r else [x]) s)"

text \<open>\<open>s.replace(c, "")\<close> for a one-character string \<open>c\<close>: only the first occurrence goes.\<close>

definition removeFirst :: "char \<Rightarrow> string \<Rightarrow> string" where
  "removeFirst c s = remove1 c s"

text \<open>\<open>s.startsWith(p)\<close>.\<close>

definition startsWith :: "string \<Rightarrow> string \<Rightarrow> bool" where
  "startsWith s p = (take (length p) s = p)"

text \<open>
  \<open>s.toLowerCase()\<close>: the letters A to Z, and the upper-case letters of the Latin-1 block
  (U+00C0 to U+00DE except the multiplication sign U+00D7), move up by 32.
\<close>

definition lowerChar :: "char \<Rightarrow> char" where
  "lowerChar c =
     (let n = (of_char c :: nat)
      in if (65 \<le> n \<and> n \<le> 90) \<or> (192 \<le> n \<and> n \<le> 222 \<and> n \<noteq> 215)
         then char_of (n + 32) else c)"

definition toLowerCase :: "string \<Rightarrow> string" where
  "toLowerCase s = map lowerChar s"

text \<open>
  \<open>s.trim()\<close>: white space and line terminators are stripped from both ends. Below 256
  these are the code units 9 to 13, 32 and 160.
\<close>

definition isSpace :: "char \<Rightarrow> bool" where
  "isSpace c = (let n = (of_char c :: nat) in (9 \<le> n \<and> n \<le> 13) \<or> n = 32 \<or> n = 160)"

definition trim :: "string \<Rightarrow> string" where
  "trim s = rev (dropWhile isSpace (rev (dropWhile isSpace s)))"

text \<open>
  \<open>Math.round\<close>: the nearest integer, a tie going to the larger one. \<open>Math.min\<close> and
  \<open>Math.max\<close> are \<^const>\<open>min\<close> and \<^const>\<open>max\<close>.
\<close>

definition Math_round :: "real \<Rightarrow> int" where
  "Math_round x = \<lfloor>x + 1 / 2\<rfloor>"

text \<open>
  The decimal text a template literal gives an integral number (below \<open>10^21\<close> in
  magnitude, where JavaScript turns to exponent notation; the integers printed here
  come from a progress below 100).
\<close>

fun digitsOf :: "nat \<Rightarrow> string" where
  "digitsOf n = (if n < 10 then [''0123456789'' ! n] else digitsOf (n div 10) @ [''0123456789'' ! (n mod 10)])"

declare digitsOf.simps [simp del]

definition numberToString :: "int \<Rightarrow> string" where
  "numberToString i = (if i < 0 then CHR ''-'' # digitsOf (nat (- i)) else digitsOf (nat i))"

subsection \<open>escapeHtml, stateLabel, badgeContentFor\<close>

definition escapeHtml :: "string \<Rightarrow> string" where
  "escapeHtml v =
     replaceAll (CHR 0x27) ''&#039;''
       (replaceAll (CHR 0x22) ''&quot;''
         (replaceAll CHR ''>'' ''&gt;''
           (replaceAll CHR ''<'' ''&lt;''
             (replaceAll CHR ''&'' ''&amp;'' v))))"

text \<open>
  \<open>stateLabel(state, progress)\<close>. The \<open>default\<close> branch of the switch returns the state
  itself; \<open>typeof progress === "number"\<close> is \<open>progress \<noteq> None\<close>.
\<close>

definition stateLabel :: "string \<Rightarrow> real option \<Rightarrow> string" where
  "stateLabel s p =
     (if s = ''WAITING'' then ''Pending''
      else if s = ''WORKING'' then
        (case p of
           Some x \<Rightarrow> if x \<ge> 100 then ''Saving'' else numberToString (Math_round x) @ ''%''
         | None \<Rightarrow> ''0%'')
      else if s = ''COMPLETE'' then ''Finished''
      else if s = ''FAILED'' then ''Failed''
      else s)"

text \<open>
  \<open>badgeContentFor\<close> returns one of two HTML templates. They are kept apart as the two
  constructors of \<open>Badge\<close>, each carrying the values the template interpolates:
  \<open>BadgeFill w l\<close> is the \<open>badge-fill\<close> span of style \<open>width: w%\<close> followed by the
  \<open>badge-text\<close> span of text \<open>l\<close>, and \<open>BadgeText l\<close> is the \<open>badge-text\<close> span alone.
\<close>

datatype Badge = BadgeFill real string | BadgeText string

definition badgeContentFor :: "string \<Rightarrow> real option \<Rightarrow> string \<Rightarrow> Badge" where
  "badgeContentFor s p label =
     (if s = ''WORKING'' \<and> p \<noteq> None then BadgeFill (the p) label else BadgeText label)"

subsection \<open>isValidYoutubeUrl\<close>

text \<open>
  The URL parser is the platform's (\<open>new URL(value)\<close>). It is a parameter of the model:
  a function that gives the parsed record, or \<open>None\<close> where the constructor throws.
  The record holds the four properties the code reads; \<open>searchParams\<close> is the list of
  the name and value pairs of the query.
\<close>

record URL =
  protocol :: string
  hostname :: string
  pathname :: string
  searchParams :: "(string \<times> string) list"

type_synonym URLParser = "string \<Rightarrow> URL option"

definition searchParams_has :: "URL \<Rightarrow> string \<Rightarrow> bool" where
  "searchParams_has u k = (k \<in> set (map fst (searchParams u)))"

definition isValidYoutubeUrl :: "URLParser \<Rightarrow> string \<Rightarrow> bool" where
  "isValidYoutubeUrl newURL v =
     (case newURL v of
        None \<Rightarrow> False
      | Some u \<Rightarrow>
          if protocol u \<notin> set [''http:'', ''https:''] then False
          else let host = toLowerCase (hostname u)
               in if host = ''youtu.be'' then removeFirst CHR ''/'' (pathname u) \<noteq> []
                  else if host = ''www.youtube.com'' \<or> host = ''youtube.com'' \<or> host = ''m.youtube.com''
                    then startsWith (pathname u) ''/watch'' \<and> searchParams_has u ''v''
                  else False)"

section \<open>The page and the server, as the client sees them\<close>

text \<open>
  The model follows one run of a function from its first statement to its last, with no
  other handler running while it awaits. Every request is taken to be answered by a
  well-formed response, which the run takes as an argument (\<open>ok\<close> is \<open>response.ok\<close>,
  \<open>body\<close> the decoded JSON). A function that awaits one request and then runs to its
  end without awaiting again (\<open>loadQueue\<close>, \<open>previewItem\<close>) is the request followed by
  that last stretch, which the browser runs undivided on the state it finds. Runs that
  overlap are followed call by call where the property is about them (the busy counter).
  The page is the one \<open>renderShell\<close> builds, so every element the code looks up by its id
  exists and the guards on a missing element are never taken. Of the page, the model
  keeps the elements the orchestrator's actions write to: the URL field, the three status
  lines, the preview player, the preview status and the queue section. The version
  card, the two select controls and \<open>syncActionsCollapse\<close> (page layout) are left out.
\<close>

record 'a Response =
  ok :: bool
  body :: 'a

record DefaultDir =
  path :: string

type_synonym File = string

datatype Request =
    GetQueue
  | GetDefaultDir
  | PostAddQueue string
  | DeleteQueueItem string
  | PostClearQueue string
  | PostDownloadAll string
  | PostImportQueue File
  | GetPreview string

text \<open>
  What the run leaves behind outside \<open>state\<close> and the page: the requests it issued and
  the replacements of the queue section, in the order they happened.
\<close>

datatype Effect = Fetch Request | RenderQueue

text \<open>
  The audio element: the value its \<open>src\<close> property reads as (empty without the attribute),
  the calls made on it, and \<open>readBack\<close>, the platform's rule for what \<open>src\<close> reads as
  once a string has been assigned to it. The browser parses and serialises the assigned
  address, so the value read may differ from the string assigned (a space in the path
  reads back as \<open>%20\<close>); \<open>readBack\<close> is a parameter that the element carries, as the
  URL parser is a parameter of the validation.
\<close>

datatype PlayerCall = Pause | RemoveSrc | Load | SetSrc string | Play

record Player =
  src :: string
  calls :: "PlayerCall list"
  readBack :: "string \<Rightarrow> string"

text \<open>
  The read-back the sample pages below use: a space becomes \<open>%20\<close> and every other
  character stays, which is what the URL serialiser does to the addresses used here.
\<close>

definition escapeSpaces :: "string \<Rightarrow> string" where
  "escapeSpaces s = replaceAll CHR '' '' ''%20'' s"

text \<open>An element with a text and the \<open>data-active\<close> attribute.\<close>

record Status =
  textContent :: string
  active :: bool

text \<open>
  The preview status line: \<open>NowPlaying parts\<close> is the text \<open>Now playing:\<close> followed by the
  parts joined by an em dash between two spaces.
\<close>

datatype PreviewStatus = Idle | NowPlaying "string list"

text \<open>One card of the queue section, field by field as the template interpolates it.\<close>

record Card =
  data_id :: string
  activeClass :: bool
  thumbnail :: "(string \<times> string) option"
  titleValue :: string
  artistValue :: string
  badgeClass :: string
  errorTitle :: "string option"
  badgeContent :: Badge

datatype QueueSection = Unrendered | QueueEmpty | QueueCards "Card list"

record Dom =
  urlInput :: string
  busyStatus :: Status
  urlErrorStatus :: Status
  urlStatus :: Status
  previewStatus :: PreviewStatus
  previewPlayer :: Player
  queueSection :: QueueSection

record World =
  st :: State
  page :: Dom
  trace :: "Effect list"

definition initialDom :: Dom where
  "initialDom =
     \<lparr>urlInput = [], busyStatus = \<lparr>textContent = [], active = False\<rparr>,
      urlErrorStatus = \<lparr>textContent = [], active = False\<rparr>,
      urlStatus = \<lparr>textContent = [], active = False\<rparr>,
      previewStatus = Idle,
      previewPlayer = \<lparr>src = [], calls = [], readBack = escapeSpaces\<rparr>,
      queueSection = Unrendered\<rparr>"

definition initialWorld :: World where
  "initialWorld = \<lparr>st = initialState, page = initialDom, trace = []\<rparr>"

section \<open>Transport layer (api.ts)\<close>

definition issue :: "Request \<Rightarrow> World \<Rightarrow> World" where
  "issue r w = w\<lparr>trace := trace w @ [Fetch r]\<rparr>"

definition fetchQueue :: "QueueItem list Response \<Rightarrow> World \<Rightarrow> QueueItem list option \<times> World" where
  "fetchQueue response w =
     (let w' = issue GetQueue w
      in if \<not> ok response then (None, w') else (Some (body response), w'))"

definition fetchDefaultDir :: "DefaultDir Response \<Rightarrow> World \<Rightarrow> string \<times> World" where
  "fetchDefaultDir response w =
     (let w' = issue GetDefaultDir w
      in if \<not> ok response then ([], w') else (path (body response), w'))"

definition postAddQueue :: "string \<Rightarrow> unit Response \<Rightarrow> World \<Rightarrow> bool \<times> World" where
  "postAddQueue u response w = (ok response, issue (PostAddQueue u) w)"

definition deleteQueueItem :: "string \<Rightarrow> unit Response \<Rightarrow> World \<Rightarrow> World" where
  "deleteQueueItem i response w = issue (DeleteQueueItem i) w"

definition postClearQueue :: "string \<Rightarrow> unit Response \<Rightarrow> World \<Rightarrow> World" where
  "postClearQueue mode response w = issue (PostClearQueue mode) w"

definition postDownloadAll :: "string \<Rightarrow> unit Response \<Rightarrow> World \<Rightarrow> World" where
  "postDownloadAll fmt response w = issue (PostDownloadAll fmt) w"

definition postImportQueue :: "File \<Rightarrow> unit Response \<Rightarrow> World \<Rightarrow> bool \<times> World" where
  "postImportQueue file response w = (ok response, issue (PostImportQueue file) w)"

definition fetchPreview :: "string \<Rightarrow> PreviewResponse Response \<Rightarrow> World \<Rightarrow> PreviewResponse option \<times> World" where
  "fetchPreview i response w =
     (let w' = issue (GetPreview i) w
      in if \<not> ok response then (None, w') else (Some (body response), w'))"

section \<open>Rendering (ui.ts)\<close>

text \<open>The clamp of \<open>renderQueue\<close>: \<open>null\<close> unless the progress is a number.\<close>

definition progressValue :: "QueueItem \<Rightarrow> real option" where
  "progressValue item =
     (case progress item of Some x \<Rightarrow> Some (min 100 (max 0 x)) | None \<Rightarrow> None)"

text \<open>A string in a condition counts as true when it is there and not empty.\<close>

definition truthy :: "string option \<Rightarrow> bool" where
  "truthy v = (case v of Some x \<Rightarrow> x \<noteq> [] | None \<Rightarrow> False)"

text \<open>The constant \<open>statusLabel\<close> of the card template.\<close>

definition statusLabelOf :: "QueueItem \<Rightarrow> string" where
  "statusLabelOf item = stateLabel (state item) (progressValue item)"

definition renderCard :: "State \<Rightarrow> QueueItem \<Rightarrow> Card" where
  "renderCard s item =
     (let statusLabel = statusLabelOf item
      in \<lparr>data_id = item_id item,
          activeClass = (item_id item = preview_id (preview s)),
          thumbnail = (if truthy (thumbnail_url item)
                       then Some (the (thumbnail_url item), escapeHtml (title item)) else None),
          titleValue = escapeHtml (title item),
          artistValue = escapeHtml (artist item),
          badgeClass = toLowerCase (state item),
          errorTitle = (if truthy (error item) then Some (escapeHtml (the (error item))) else None),
          badgeContent = badgeContentFor (state item) (progressValue item) statusLabel\<rparr>)"

text \<open>What \<open>renderQueue\<close> writes into the queue section.\<close>

definition queueView :: "State \<Rightarrow> QueueSection" where
  "queueView s = (if queue s = [] then QueueEmpty else QueueCards (map (renderCard s) (queue s)))"

definition renderQueue :: "World \<Rightarrow> World" where
  "renderQueue w =
     w\<lparr>page := (page w)\<lparr>queueSection := queueView (st w)\<rparr>,
       trace := trace w @ [RenderQueue]\<rparr>"

definition previewLabel :: "State \<Rightarrow> PreviewStatus" where
  "previewLabel s =
     (if preview_id (preview s) \<noteq> [] then
        (let current = find (\<lambda>item. item_id item = preview_id (preview s)) (queue s);
             t = (case current of Some c \<Rightarrow> trim (title c) | None \<Rightarrow> []);
             a = (case current of Some c \<Rightarrow> trim (artist c) | None \<Rightarrow> [])
         in if t \<noteq> [] \<or> a \<noteq> [] then NowPlaying (filter (\<lambda>x. x \<noteq> []) [t, a])
            else NowPlaying [preview_id (preview s)])
      else Idle)"

definition syncPlayer :: "bool \<Rightarrow> string \<Rightarrow> Player \<Rightarrow> Player" where
  "syncPlayer autoplay nextSrc player =
     (if nextSrc = [] then
        (let p1 = player\<lparr>calls := calls player @ [Pause]\<rparr>
         in if src p1 \<noteq> [] then p1\<lparr>src := [], calls := calls p1 @ [RemoveSrc, Load]\<rparr> else p1)
      else if src player \<noteq> nextSrc then
        (let p1 = player\<lparr>src := readBack player nextSrc, calls := calls player @ [SetSrc nextSrc]\<rparr>
         in if nextSrc \<noteq> [] \<and> autoplay then p1\<lparr>calls := calls p1 @ [Play]\<rparr> else p1)
      else if nextSrc \<noteq> [] \<and> autoplay then player\<lparr>calls := calls player @ [Play]\<rparr>
      else player)"

definition nextSrcOf :: "State \<Rightarrow> string" where
  "nextSrcOf s = (if preview_url (preview s) \<noteq> [] then API_BASE @ preview_url (preview s) else [])"

definition syncPreviewPlayer :: "bool \<Rightarrow> World \<Rightarrow> World" where
  "syncPreviewPlayer autoplay w =
     w\<lparr>page := (page w)\<lparr>previewStatus := previewLabel (st w),
                      previewPlayer := syncPlayer autoplay (nextSrcOf (st w)) (previewPlayer (page w))\<rparr>\<rparr>"

definition render :: "World \<Rightarrow> World" where
  "render w =
     (let s = st w;
          w1 = w\<lparr>page := (page w)
                 \<lparr>busyStatus :=
                    (if isBusy s
                     then \<lparr>textContent = (if busyMessage s \<noteq> [] then busyMessage s else ''Loading...''),
                           active = True\<rparr>
                     else \<lparr>textContent = [], active = False\<rparr>),
                  urlErrorStatus := \<lparr>textContent = urlError s, active = (urlError s \<noteq> [])\<rparr>,
                  urlStatus := \<lparr>textContent = (if isAdding s then ''Loading...'' else []),
                                active = isAdding s\<rparr>\<rparr>\<rparr>
      in renderQueue (syncPreviewPlayer False w1))"

section \<open>Orchestrator (main.ts)\<close>

definition loadQueue :: "QueueItem list Response \<Rightarrow> World \<Rightarrow> World" where
  "loadQueue response w =
     (case fetchQueue response w of
        (None, w1) \<Rightarrow> w1
      | (Some q, w1) \<Rightarrow>
          (let w2 = w1\<lparr>st := (st w1)\<lparr>queue := q\<rparr>\<rparr>
           in if preview_id (preview (st w2)) \<noteq> []
                 \<and> \<not> (\<exists>item \<in> set (queue (st w2)). item_id item = preview_id (preview (st w2)))
              then syncPreviewPlayer False
                     (w2\<lparr>st := (st w2)\<lparr>preview := \<lparr>preview_id = [], preview_url = []\<rparr>\<rparr>\<rparr>)
              else w2))"

definition loadDefaultDir :: "DefaultDir Response \<Rightarrow> World \<Rightarrow> World" where
  "loadDefaultDir response w =
     (case fetchDefaultDir response w of (d, w1) \<Rightarrow> w1\<lparr>st := (st w1)\<lparr>dir := d\<rparr>\<rparr>)"

text \<open>\<open>setBusy(active, message)\<close>; \<open>if (message)\<close> holds for a message that is there and not empty.\<close>

definition setBusy :: "bool \<Rightarrow> string option \<Rightarrow> World \<Rightarrow> World" where
  "setBusy act message w =
     (let s = st w;
          s' = (if act then
                  (let s1 = s\<lparr>busyCount := busyCount s + 1\<rparr>;
                       s2 = (if truthy message then s1\<lparr>busyMessage := the message\<rparr> else s1)
                   in s2\<lparr>isBusy := True\<rparr>)
                else
                  (let s1 = s\<lparr>busyCount := max 0 (busyCount s - 1)\<rparr>
                   in if busyCount s1 = 0 then s1\<lparr>isBusy := False, busyMessage := []\<rparr> else s1))
      in render (w\<lparr>st := s'\<rparr>))"

text \<open>
  \<open>addQueue\<close> and \<open>importQueue\<close>: the \<open>try\<close> block ends at \<open>return\<close> when the request is not
  accepted, and the \<open>finally\<close> block runs on either way out.
\<close>

definition addQueue :: "string \<Rightarrow> unit Response \<Rightarrow> QueueItem list Response \<Rightarrow> World \<Rightarrow> World" where
  "addQueue u added refetched w =
     (let w1 = render (w\<lparr>st := (st w)\<lparr>isAdding := True\<rparr>\<rparr>);
          w2 = setBusy True (Some ''Fetching video info...'') w1;
          w3 = (case postAddQueue u added w2 of
                  (accepted, w') \<Rightarrow>
                    if \<not> accepted then w' else renderQueue (loadQueue refetched w'));
          w4 = setBusy False None w3
      in render (w4\<lparr>st := (st w4)\<lparr>isAdding := False\<rparr>\<rparr>))"

definition deleteItem :: "string \<Rightarrow> unit Response \<Rightarrow> QueueItem list Response \<Rightarrow> World \<Rightarrow> World" where
  "deleteItem i deleted refetched w =
     renderQueue (loadQueue refetched (deleteQueueItem i deleted w))"

definition clearQueue :: "string \<Rightarrow> unit Response \<Rightarrow> QueueItem list Response \<Rightarrow> World \<Rightarrow> World" where
  "clearQueue mode cleared refetched w =
     renderQueue (loadQueue refetched (postClearQueue mode cleared w))"

definition downloadAll :: "unit Response \<Rightarrow> World \<Rightarrow> World" where
  "downloadAll response w =
     (if dir (st w) = [] then w else postDownloadAll (format (st w)) response w)"

definition importQueue :: "File \<Rightarrow> unit Response \<Rightarrow> QueueItem list Response \<Rightarrow> World \<Rightarrow> World" where
  "importQueue file imported refetched w =
     (let w1 = setBusy True (Some ''Loading items from file (yt-dlp can take a while)...'') w;
          w2 = (case postImportQueue file imported w1 of
                  (accepted, w') \<Rightarrow>
                    if \<not> accepted then w' else renderQueue (loadQueue refetched w'))
      in setBusy False None w2)"

definition previewItem :: "string \<Rightarrow> PreviewResponse Response \<Rightarrow> World \<Rightarrow> World" where
  "previewItem i response w =
     (case fetchPreview i response w of
        (None, w1) \<Rightarrow> w1
      | (Some d, w1) \<Rightarrow>
          syncPreviewPlayer True (w1\<lparr>st := (st w1)\<lparr>preview := \<lparr>preview_id = i, preview_url = url d\<rparr>\<rparr>\<rparr>))"

text \<open>
  The two handlers of the add-URL field, as \<open>bindEvents\<close> registers them. The click
  handler's guard on a missing field is not taken (the field exists); the key handler
  takes \<open>event.key\<close>.
\<close>

definition addBtnClick :: "URLParser \<Rightarrow> unit Response \<Rightarrow> QueueItem list Response \<Rightarrow> World \<Rightarrow> World" where
  "addBtnClick newURL added refetched w =
     (let v = trim (urlInput (page w))
      in if v = [] then w
         else if \<not> isValidYoutubeUrl newURL v
           then render (w\<lparr>st := (st w)\<lparr>urlError := ''Please enter a valid YouTube URL.''\<rparr>\<rparr>)
         else (let w1 = addQueue v added refetched (w\<lparr>st := (st w)\<lparr>urlError := []\<rparr>\<rparr>)
               in w1\<lparr>page := (page w1)\<lparr>urlInput := []\<rparr>\<rparr>))"

definition urlInputKeydown :: "URLParser \<Rightarrow> string \<Rightarrow> unit Response \<Rightarrow> QueueItem list Response \<Rightarrow> World \<Rightarrow> World" where
  "urlInputKeydown newURL key added refetched w =
     (if key \<noteq> ''Enter'' then w
      else (let v = trim (urlInput (page w))
            in if v = [] then w
               else if \<not> isValidYoutubeUrl newURL v
                 then render (w\<lparr>st := (st w)\<lparr>urlError := ''Please enter a valid YouTube URL.''\<rparr>\<rparr>)
               else (let w1 = addQueue v added refetched (w\<lparr>st := (st w)\<lparr>urlError := []\<rparr>\<rparr>)
                     in w1\<lparr>page := (page w1)\<lparr>urlInput := []\<rparr>\<rparr>)))"

text \<open>The callback \<open>bootstrap\<close> hands to \<open>setInterval\<close>: one tick of the poll.\<close>

definition pollTick :: "QueueItem list Response \<Rightarrow> World \<Rightarrow> World" where
  "pollTick response w = renderQueue (loadQueue response w)"

section \<open>Runs of the busy counter\<close>

text \<open>
  A run of \<open>setBusy\<close> calls, each given by its two arguments, in the order the calls are
  made. \<open>outstanding\<close> counts the calls with \<open>active = true\<close> less those with
  \<open>active = false\<close>; a run is \<open>matching\<close> when every \<open>setBusy(false)\<close> in it has an
  earlier \<open>setBusy(true)\<close> of its own, that is, when no prefix has more of the second
  kind than of the first.
\<close>

type_synonym BusyCall = "bool \<times> string option"

definition runBusy :: "BusyCall list \<Rightarrow> World \<Rightarrow> World" where
  "runBusy cs w = foldl (\<lambda>w' c. setBusy (fst c) (snd c) w') w cs"

definition outstanding :: "BusyCall list \<Rightarrow> int" where
  "outstanding cs = int (length (filter fst cs)) - int (length (filter (\<lambda>c. \<not> fst c) cs))"

definition matching :: "BusyCall list \<Rightarrow> bool" where
  "matching cs = (\<forall>k \<in> {..length cs}. 0 \<le> outstanding (take k cs))"

definition twoAdds :: "BusyCall list" where
  "twoAdds = [(True, Some ''Fetching video info...''), (True, None), (False, None), (False, None)]"

section \<open>Reading a label back, and sample items\<close>

text \<open>The number a string of decimal digits stands for.\<close>

definition readDigits :: "string \<Rightarrow> nat" where
  "readDigits s = foldl (\<lambda>a c. 10 * a + (of_char c - 48)) 0 s"

definition sampleItem :: "string \<Rightarrow> real option \<Rightarrow> QueueItem" where
  "sampleItem s p =
     \<lparr>item_id = ''job-1'', youtube_url = ''https://youtu.be/abc123'', title = ''Title'',
      artist = ''Artist'', thumbnail_url = None, duration = None, state = s, progress = p,
      error = None\<rparr>"

section \<open>What the URL parser gives on the sample addresses\<close>

text \<open>
  The records the URL Standard's parser produces for the six sample addresses (the last
  has no scheme, and the constructor throws). \<open>parsesAsStandard\<close> says that a parser
  agrees with them; \<open>tableParser\<close> is the parser that knows these six addresses only.
\<close>

definition standardParses :: "(string \<times> URL option) list" where
  "standardParses =
     [(''https://youtu.be/abc123'',
         Some \<lparr>protocol = ''https:'', hostname = ''youtu.be'', pathname = ''/abc123'', searchParams = []\<rparr>),
      (''https://youtu.be/'',
         Some \<lparr>protocol = ''https:'', hostname = ''youtu.be'', pathname = ''/'', searchParams = []\<rparr>),
      (''https://www.youtube.com/watch?v=abc123'',
         Some \<lparr>protocol = ''https:'', hostname = ''www.youtube.com'', pathname = ''/watch'',
               searchParams = [(''v'', ''abc123'')]\<rparr>),
      (''https://www.youtube.com/watch'',
         Some \<lparr>protocol = ''https:'', hostname = ''www.youtube.com'', pathname = ''/watch'',
               searchParams = []\<rparr>),
      (''ftp://youtube.com/watch?v=x'',
         Some \<lparr>protocol = ''ftp:'', hostname = ''youtube.com'', pathname = ''/watch'',
               searchParams = [(''v'', ''x'')]\<rparr>),
      (''not a url'', None)]"

definition parsesAsStandard :: "URLParser \<Rightarrow> bool" where
  "parsesAsStandard newURL = (\<forall>(v, r) \<in> set standardParses. newURL v = r)"

definition tableParser :: URLParser where
  "tableParser v = (case map_of standardParses v of Some r \<Rightarrow> r | None \<Rightarrow> None)"

definition youtubeHosts :: "string list" where
  "youtubeHosts = [''youtu.be'', ''www.youtube.com'', ''youtube.com'', ''m.youtube.com'']"

text \<open>The initial page with a given queue in the state.\<close>

definition sampleWorld :: "QueueItem list \<Rightarrow> World" where
  "sampleWorld q = initialWorld\<lparr>st := initialState\<lparr>queue := q\<rparr>\<rparr>"

section \<open>Sample responses and a page with a running preview\<close>

definition failedResponse :: "'a \<Rightarrow> 'a Response" where
  "failedResponse b = \<lparr>ok = False, body = b\<rparr>"

definition okResponse :: "'a \<Rightarrow> 'a Response" where
  "okResponse b = \<lparr>ok = True, body = b\<rparr>"

definition previewingWorld :: World where
  "previewingWorld =
     \<lparr>st = initialState\<lparr>queue := [sampleItem ''COMPLETE'' None],
                         preview := \<lparr>preview_id = ''job-1'', preview_url = ''/preview/job-1''\<rparr>\<rparr>,
      page = initialDom\<lparr>previewStatus := NowPlaying [''Title'', ''Artist''],
                       previewPlayer := \<lparr>src = API_BASE @ ''/preview/job-1'',
                                         calls = [SetSrc (API_BASE @ ''/preview/job-1''), Play],
                                         readBack = escapeSpaces\<rparr>\<rparr>,
      trace = []\<rparr>"

text \<open>The same page once the state names a stream URL with a space in it.\<close>

definition spacedWorld :: World where
  "spacedWorld =
     previewingWorld\<lparr>st := (st previewingWorld)
       \<lparr>preview := \<lparr>preview_id = ''job-1'', preview_url = ''/preview/a b.mp3''\<rparr>\<rparr>\<rparr>"

text \<open>The initial page with a text typed into the URL field.\<close>

definition typedWorld :: "string \<Rightarrow> World" where
  "typedWorld v = initialWorld\<lparr>page := initialDom\<lparr>urlInput := v\<rparr>\<rparr>"

section \<open>Properties\<close>

subsection \<open>Rendering leaves the state alone\<close>

lemma st_renderQueue: "st (renderQueue w) = st w"
  by (simp add: renderQueue_def)

lemma st_syncPreviewPlayer: "st (syncPreviewPlayer a w) = st w"
  by (simp add: syncPreviewPlayer_def)

lemma st_render: "st (render w) = st w"
  by (simp add: render_def Let_def st_renderQueue st_syncPreviewPlayer)

subsection \<open>The busy counter\<close>

lemma st_setBusy_True:
  "st (setBusy True m w) =
     (st w)\<lparr>busyCount := busyCount (st w) + 1,
            busyMessage := (if truthy m then the m else busyMessage (st w)),
            isBusy := True\<rparr>"
  by (simp add: setBusy_def Let_def st_render)

lemma st_setBusy_False:
  "st (setBusy False m w) =
     (if max 0 (busyCount (st w) - 1) = 0
      then (st w)\<lparr>busyCount := 0, isBusy := False, busyMessage := []\<rparr>
      else (st w)\<lparr>busyCount := busyCount (st w) - 1\<rparr>)"
  by (simp add: setBusy_def Let_def st_render max_def)

lemma runBusy_snoc: "runBusy (cs @ [c]) w = setBusy (fst c) (snd c) (runBusy cs w)"
  by (simp add: runBusy_def)

lemma outstanding_snoc:
  "outstanding (cs @ [c]) = outstanding cs + (if fst c then 1 else - 1)"
  by (simp add: outstanding_def)

lemma matching_butlast: "matching (cs @ [c]) \<Longrightarrow> matching cs"
proof -
  assume m: "matching (cs @ [c])"
  show "matching cs"
    unfolding matching_def
  proof
    fix k assume "k \<in> {..length cs}"
    then have k: "k \<le> length cs" by simp
    then have "k \<in> {..length (cs @ [c])}" by simp
    with m have "0 \<le> outstanding (take k (cs @ [c]))" unfolding matching_def by blast
    with k show "0 \<le> outstanding (take k cs)" by simp
  qed
qed

lemma matching_whole: "matching cs \<Longrightarrow> 0 \<le> outstanding cs"
  unfolding matching_def by (drule bspec [where x = "length cs"]) simp_all

lemma matching_take: "matching cs \<Longrightarrow> matching (take k cs)"
  unfolding matching_def
proof
  fix j assume m: "\<forall>k\<in>{..length cs}. 0 \<le> outstanding (take k cs)" and "j \<in> {..length (take k cs)}"
  then have "min j k \<le> length cs" by simp
  with m have "0 \<le> outstanding (take (min j k) cs)" by simp
  then show "0 \<le> outstanding (take j (take k cs))" by (simp add: min.commute)
qed

text \<open>
  Only \<open>setBusy\<close> writes the three fields of the busy counter: rendering, a refresh of the
  queue and a preview request leave them as they are.
\<close>

lemma busy_frame_render:
  "busyCount (st (render w)) = busyCount (st w) \<and> isBusy (st (render w)) = isBusy (st w)
   \<and> busyMessage (st (render w)) = busyMessage (st w)"
  by (simp add: st_render)

lemma busy_frame_loadQueue:
  "busyCount (st (loadQueue r w)) = busyCount (st w) \<and> isBusy (st (loadQueue r w)) = isBusy (st w)
   \<and> busyMessage (st (loadQueue r w)) = busyMessage (st w)"
  by (simp add: loadQueue_def fetchQueue_def issue_def Let_def st_syncPreviewPlayer)

lemma busy_frame_previewItem:
  "busyCount (st (previewItem i r w)) = busyCount (st w)
   \<and> isBusy (st (previewItem i r w)) = isBusy (st w)
   \<and> busyMessage (st (previewItem i r w)) = busyMessage (st w)"
  by (simp add: previewItem_def fetchPreview_def issue_def Let_def st_syncPreviewPlayer)

text \<open>
  After a matching run from an idle counter the counter is the number of outstanding
  calls. The induction goes over the run from its end, one call at a time.
\<close>

lemma runBusy_counts:
  assumes "busyCount (st w) = 0" and "\<not> isBusy (st w)" and "busyMessage (st w) = []"
  shows "matching cs \<Longrightarrow>
         busyCount (st (runBusy cs w)) = outstanding cs
       \<and> (isBusy (st (runBusy cs w)) \<longleftrightarrow> 0 < outstanding cs)
       \<and> (outstanding cs = 0 \<longrightarrow> busyMessage (st (runBusy cs w)) = [])"
proof (induction cs rule: rev_induct)
  case Nil
  with assms show ?case by (simp add: runBusy_def outstanding_def)
next
  case (snoc c cs)
  from snoc.prems have m: "matching cs" by (rule matching_butlast)
  from snoc.prems have nn: "0 \<le> outstanding (cs @ [c])" by (rule matching_whole)
  from m have nn': "0 \<le> outstanding cs" by (rule matching_whole)
  note ih = snoc.IH [OF m]
  show ?case
  proof (cases "fst c")
    case True
    with ih nn' show ?thesis
      by (simp add: runBusy_snoc outstanding_snoc st_setBusy_True)
  next
    case False
    with nn have "1 \<le> outstanding cs" by (simp add: outstanding_snoc)
    with False ih show ?thesis
      by (auto simp add: runBusy_snoc outstanding_snoc st_setBusy_False)
  qed
qed

text \<open>
  C1. Start with \<open>busyCount = 0\<close>, \<open>isBusy = false\<close> and an empty \<open>busyMessage\<close>, and make
  any matching run of \<open>setBusy\<close> calls. After every prefix of the run, \<open>busyCount\<close> is the
  number of \<open>setBusy(true)\<close> calls not yet matched by a \<open>setBusy(false)\<close>, it is not
  negative, and \<open>isBusy\<close> holds exactly when it is positive: so \<open>isBusy\<close> is true from the
  first increment until the last matching decrement. Once all N calls are matched,
  \<open>isBusy\<close> is false and \<open>busyMessage\<close> is empty.
\<close>

theorem busy_counter_discipline:
  assumes "busyCount (st w) = 0" and "\<not> isBusy (st w)" and "busyMessage (st w) = []"
    and "matching cs"
  shows "(\<forall>k \<in> {..length cs}.
            busyCount (st (runBusy (take k cs) w)) = outstanding (take k cs)
          \<and> 0 \<le> busyCount (st (runBusy (take k cs) w))
          \<and> (isBusy (st (runBusy (take k cs) w)) \<longleftrightarrow> 0 < busyCount (st (runBusy (take k cs) w))))
       \<and> (outstanding cs = 0 \<longrightarrow>
            \<not> isBusy (st (runBusy cs w)) \<and> busyMessage (st (runBusy cs w)) = [])"
proof
  show "\<forall>k \<in> {..length cs}.
            busyCount (st (runBusy (take k cs) w)) = outstanding (take k cs)
          \<and> 0 \<le> busyCount (st (runBusy (take k cs) w))
          \<and> (isBusy (st (runBusy (take k cs) w)) \<longleftrightarrow> 0 < busyCount (st (runBusy (take k cs) w)))"
  proof
    fix k
    have m: "matching (take k cs)" using assms(4) by (rule matching_take)
    from runBusy_counts [OF assms(1-3) m] matching_whole [OF m]
    show "busyCount (st (runBusy (take k cs) w)) = outstanding (take k cs)
          \<and> 0 \<le> busyCount (st (runBusy (take k cs) w))
          \<and> (isBusy (st (runBusy (take k cs) w)) \<longleftrightarrow> 0 < busyCount (st (runBusy (take k cs) w)))"
      by simp
  qed
  from runBusy_counts [OF assms]
  show "outstanding cs = 0 \<longrightarrow>
            \<not> isBusy (st (runBusy cs w)) \<and> busyMessage (st (runBusy cs w)) = []"
    by simp
qed

text \<open>
  Two overlapping operations from the initial state: busy with two outstanding, still
  busy after the first completes, idle with no message after the second.
\<close>

theorem busy_counter_discipline_witness:
  "busyCount (st initialWorld) = 0 \<and> matching twoAdds
   \<and> busyCount (st (runBusy (take 2 twoAdds) initialWorld)) = 2
   \<and> isBusy (st (runBusy (take 3 twoAdds) initialWorld))
   \<and> \<not> isBusy (st (runBusy twoAdds initialWorld))
   \<and> busyMessage (st (runBusy twoAdds initialWorld)) = []"
proof -
  have i: "busyCount (st initialWorld) = 0" "\<not> isBusy (st initialWorld)"
    "busyMessage (st initialWorld) = []"
    by (simp_all add: initialWorld_def initialState_def)
  have m: "matching twoAdds"
    unfolding matching_def twoAdds_def outstanding_def
    by (simp add: atMost_Suc numeral_eq_Suc)
  have o: "outstanding twoAdds = 0" "outstanding (take 2 twoAdds) = 2"
    "outstanding (take 3 twoAdds) = 1"
    by (simp_all add: twoAdds_def outstanding_def)
  have l: "length twoAdds = 4" by (simp add: twoAdds_def)
  note d = busy_counter_discipline [OF i m]
  from d l have "busyCount (st (runBusy (take 2 twoAdds) initialWorld)) = outstanding (take 2 twoAdds)"
    by simp
  moreover from d l have "isBusy (st (runBusy (take 3 twoAdds) initialWorld)) \<longleftrightarrow>
      0 < outstanding (take 3 twoAdds)"
    by simp
  ultimately show ?thesis using d i m o by simp
qed

subsection \<open>Status labels\<close>

lemma digit_char: "d < 10 \<Longrightarrow> (of_char (''0123456789'' ! d) :: nat) = 48 + d"
  by (auto simp add: numeral_eq_Suc less_Suc_eq)

lemma readDigits_snoc: "readDigits (s @ [c]) = 10 * readDigits s + (of_char c - 48)"
  by (simp add: readDigits_def)

text \<open>\<open>digitsOf\<close> writes the decimal numeral of its argument: reading it back gives the number.\<close>

lemma readDigits_digitsOf: "readDigits (digitsOf n) = n"
proof (induction n rule: digitsOf.induct)
  case (1 n)
  show ?case
  proof (cases "n < 10")
    case True
    then show ?thesis
      by (subst digitsOf.simps) (simp add: readDigits_def digit_char)
  next
    case False
    with 1 have "readDigits (digitsOf (n div 10)) = n div 10" by simp
    with False show ?thesis
      by (subst digitsOf.simps) (simp add: readDigits_snoc digit_char)
  qed
qed

lemma readDigits_numberToString: "0 \<le> i \<Longrightarrow> int (readDigits (numberToString i)) = i"
  by (simp add: numberToString_def readDigits_digitsOf)

lemma Math_round_nearest: "\<bar>of_int (Math_round x) - x\<bar> \<le> 1 / 2"
  unfolding Math_round_def by linarith

lemma Math_round_nonneg: "0 \<le> x \<Longrightarrow> 0 \<le> Math_round x"
  unfolding Math_round_def by simp

text \<open>
  C3. The status label of a queue item is a function of its state and its clamped
  progress alone: \<open>WAITING\<close> gives \<open>Pending\<close>, \<open>COMPLETE\<close> gives \<open>Finished\<close> and \<open>FAILED\<close>
  gives \<open>Failed\<close> whatever the progress; \<open>WORKING\<close> without a progress gives \<open>0%\<close>;
  \<open>WORKING\<close> with a clamped progress of 100 or more gives \<open>Saving\<close>; \<open>WORKING\<close> with a
  clamped progress below 100 gives the decimal numeral of the nearest integer
  followed by the percent sign.
\<close>

theorem status_label_mapping:
  "(state item = ''WAITING'' \<longrightarrow> statusLabelOf item = ''Pending'')
 \<and> (state item = ''COMPLETE'' \<longrightarrow> statusLabelOf item = ''Finished'')
 \<and> (state item = ''FAILED'' \<longrightarrow> statusLabelOf item = ''Failed'')
 \<and> (state item = ''WORKING'' \<and> progress item = None \<longrightarrow> statusLabelOf item = ''0%'')
 \<and> (state item = ''WORKING'' \<and> progress item = Some x \<and> 100 \<le> min 100 (max 0 x) \<longrightarrow>
       statusLabelOf item = ''Saving'')
 \<and> (state item = ''WORKING'' \<and> progress item = Some x \<and> min 100 (max 0 x) < 100 \<longrightarrow>
       statusLabelOf item = numberToString (Math_round (min 100 (max 0 x))) @ ''%''
     \<and> \<bar>of_int (Math_round (min 100 (max 0 x))) - min 100 (max 0 x)\<bar> \<le> 1 / 2
     \<and> int (readDigits (numberToString (Math_round (min 100 (max 0 x))))) =
         Math_round (min 100 (max 0 x)))"
proof -
  have r: "int (readDigits (numberToString (Math_round (min 100 (max 0 x))))) =
         Math_round (min 100 (max 0 x))"
    by (rule readDigits_numberToString, rule Math_round_nonneg) simp
  show ?thesis
    using r Math_round_nearest [of "min 100 (max 0 x)"]
    by (simp add: statusLabelOf_def stateLabel_def progressValue_def)
qed

text \<open>The pairs of the specification: a progress of 137 saves, one of 42.6 shows 43%.\<close>

theorem status_label_mapping_witness:
  "statusLabelOf (sampleItem ''WAITING'' (Some 50)) = ''Pending''
 \<and> statusLabelOf (sampleItem ''COMPLETE'' None) = ''Finished''
 \<and> statusLabelOf (sampleItem ''FAILED'' (Some 12)) = ''Failed''
 \<and> statusLabelOf (sampleItem ''WORKING'' None) = ''0%''
 \<and> statusLabelOf (sampleItem ''WORKING'' (Some 137)) = ''Saving''
 \<and> statusLabelOf (sampleItem ''WORKING'' (Some (426 / 10))) = ''43%''"
proof -
  have n: "numberToString (Math_round (min 100 (max 0 (426 / 10)))) = ''43''"
    by (simp add: Math_round_def numberToString_def digitsOf.simps)
  show ?thesis
    using status_label_mapping [of "sampleItem ''WAITING'' (Some 50)" 50]
      status_label_mapping [of "sampleItem ''COMPLETE'' None" 0]
      status_label_mapping [of "sampleItem ''FAILED'' (Some 12)" 12]
      status_label_mapping [of "sampleItem ''WORKING'' None" 0]
      status_label_mapping [of "sampleItem ''WORKING'' (Some 137)" 137]
      status_label_mapping [of "sampleItem ''WORKING'' (Some (426 / 10))" "426 / 10"]
      n
    by (simp add: sampleItem_def)
qed

subsection \<open>URL validation\<close>

lemma isValidYoutubeUrl_None: "newURL v = None \<Longrightarrow> \<not> isValidYoutubeUrl newURL v"
  by (simp add: isValidYoutubeUrl_def)

lemma lower_hosts:
  "toLowerCase ''youtu.be'' = ''youtu.be''"
  "toLowerCase ''www.youtube.com'' = ''www.youtube.com''"
  "toLowerCase ''youtube.com'' = ''youtube.com''"
  by (simp_all add: toLowerCase_def lowerChar_def)

text \<open>
  C4. \<open>isValidYoutubeUrl\<close> returns a boolean on every string: where the URL constructor
  throws, the result is \<open>false\<close>, and where it accepts, the scheme is \<open>http\<close> or \<open>https\<close>
  and the host one of the four names. On the sample addresses:
  \<open>https://youtu.be/abc123\<close> is valid, \<open>https://youtu.be/\<close> is not (empty id),
  \<open>https://www.youtube.com/watch?v=abc123\<close> is valid, \<open>https://www.youtube.com/watch\<close>
  is not (no \<open>v\<close> parameter), \<open>ftp://youtube.com/watch?v=x\<close> is not (scheme), and
  \<open>not a url\<close> is not.
\<close>

theorem youtube_url_validation:
  assumes "parsesAsStandard newURL"
  shows "isValidYoutubeUrl newURL ''https://youtu.be/abc123''
       \<and> \<not> isValidYoutubeUrl newURL ''https://youtu.be/''
       \<and> isValidYoutubeUrl newURL ''https://www.youtube.com/watch?v=abc123''
       \<and> \<not> isValidYoutubeUrl newURL ''https://www.youtube.com/watch''
       \<and> \<not> isValidYoutubeUrl newURL ''ftp://youtube.com/watch?v=x''
       \<and> \<not> isValidYoutubeUrl newURL ''not a url''
       \<and> (\<forall>v. newURL v = None \<longrightarrow> \<not> isValidYoutubeUrl newURL v)
       \<and> (\<forall>v. isValidYoutubeUrl newURL v \<longrightarrow>
            (\<exists>u. newURL v = Some u \<and> protocol u \<in> {''http:'', ''https:''}
                 \<and> toLowerCase (hostname u) \<in> set youtubeHosts))"
proof -
  from assms have p:
    "newURL ''https://youtu.be/abc123'' =
       Some \<lparr>protocol = ''https:'', hostname = ''youtu.be'', pathname = ''/abc123'', searchParams = []\<rparr>"
    "newURL ''https://youtu.be/'' =
       Some \<lparr>protocol = ''https:'', hostname = ''youtu.be'', pathname = ''/'', searchParams = []\<rparr>"
    "newURL ''https://www.youtube.com/watch?v=abc123'' =
       Some \<lparr>protocol = ''https:'', hostname = ''www.youtube.com'', pathname = ''/watch'',
               searchParams = [(''v'', ''abc123'')]\<rparr>"
    "newURL ''https://www.youtube.com/watch'' =
       Some \<lparr>protocol = ''https:'', hostname = ''www.youtube.com'', pathname = ''/watch'',
               searchParams = []\<rparr>"
    "newURL ''ftp://youtube.com/watch?v=x'' =
       Some \<lparr>protocol = ''ftp:'', hostname = ''youtube.com'', pathname = ''/watch'',
               searchParams = [(''v'', ''x'')]\<rparr>"
    "newURL ''not a url'' = None"
    by (simp_all add: parsesAsStandard_def standardParses_def)
  have 1: "isValidYoutubeUrl newURL ''https://youtu.be/abc123''"
    using p(1) by (simp add: isValidYoutubeUrl_def lower_hosts removeFirst_def)
  have 2: "\<not> isValidYoutubeUrl newURL ''https://youtu.be/''"
    using p(2) by (simp add: isValidYoutubeUrl_def lower_hosts removeFirst_def)
  have 3: "isValidYoutubeUrl newURL ''https://www.youtube.com/watch?v=abc123''"
    using p(3) by (simp add: isValidYoutubeUrl_def lower_hosts startsWith_def searchParams_has_def)
  have 4: "\<not> isValidYoutubeUrl newURL ''https://www.youtube.com/watch''"
    using p(4) by (simp add: isValidYoutubeUrl_def lower_hosts startsWith_def searchParams_has_def)
  have 5: "\<not> isValidYoutubeUrl newURL ''ftp://youtube.com/watch?v=x''"
    using p(5) by (simp add: isValidYoutubeUrl_def)
  have 6: "\<not> isValidYoutubeUrl newURL ''not a url''"
    using p(6) by (simp add: isValidYoutubeUrl_def)
  have 7: "\<forall>v. newURL v = None \<longrightarrow> \<not> isValidYoutubeUrl newURL v"
    by (simp add: isValidYoutubeUrl_None)
  have 8: "\<forall>v. isValidYoutubeUrl newURL v \<longrightarrow>
            (\<exists>u. newURL v = Some u \<and> protocol u \<in> {''http:'', ''https:''}
                 \<and> toLowerCase (hostname u) \<in> set youtubeHosts)"
  proof (intro allI impI)
    fix v assume a: "isValidYoutubeUrl newURL v"
    then obtain u where u: "newURL v = Some u"
      by (cases "newURL v") (simp_all add: isValidYoutubeUrl_None)
    from a show "\<exists>u. newURL v = Some u \<and> protocol u \<in> {''http:'', ''https:''}
                 \<and> toLowerCase (hostname u) \<in> set youtubeHosts"
      using u by (auto simp add: isValidYoutubeUrl_def Let_def youtubeHosts_def split: if_splits)
  qed
  from 1 2 3 4 5 6 7 8 show ?thesis by blast
qed

text \<open>The table parser agrees with the standard on the six addresses.\<close>

theorem youtube_url_validation_witness:
  "parsesAsStandard tableParser
   \<and> isValidYoutubeUrl tableParser ''https://youtu.be/abc123''
   \<and> \<not> isValidYoutubeUrl tableParser ''https://youtu.be/''
   \<and> isValidYoutubeUrl tableParser ''https://www.youtube.com/watch?v=abc123''
   \<and> \<not> isValidYoutubeUrl tableParser ''https://www.youtube.com/watch''
   \<and> \<not> isValidYoutubeUrl tableParser ''ftp://youtube.com/watch?v=x''
   \<and> \<not> isValidYoutubeUrl tableParser ''not a url''"
proof -
  have t: "parsesAsStandard tableParser"
    by (simp add: parsesAsStandard_def tableParser_def standardParses_def)
  from youtube_url_validation [OF t] t show ?thesis by blast
qed

subsection \<open>The progress badge\<close>

lemma badgeContent_renderCard:
  "badgeContent (renderCard s item) =
     badgeContentFor (state item) (progressValue item) (statusLabelOf item)"
  by (simp add: renderCard_def Let_def)

lemma clamp_commute: "min 100 (max 0 p) = max 0 (min 100 (p::real))"
  by (simp add: min_def max_def)

text \<open>
  C8, as stated, fails on a \<open>WORKING\<close> item that reports no progress: its badge is the
  label \<open>0%\<close> alone, without a fill element.
\<close>

theorem working_item_without_progress:
  "state (sampleItem ''WORKING'' None) = ''WORKING''
   \<and> badgeContent (renderCard initialState (sampleItem ''WORKING'' None)) = BadgeText ''0%''"
  by (simp add: badgeContent_renderCard badgeContentFor_def progressValue_def statusLabelOf_def
      stateLabel_def sampleItem_def)

text \<open>
  C8, amended. The queue section holds one card for each item of the queue, in order.
  The card of a \<open>WORKING\<close> item whose progress is a number \<open>p\<close> has the fill element, of
  width \<open>max(0, min(100, p))\<close> percent, before its label; the card of a \<open>WORKING\<close> item
  without a progress, and of an item in any other state, has the label alone.
\<close>

theorem badge_fill_width:
  "(queue (st w) \<noteq> [] \<longrightarrow>
      queueSection (page (renderQueue w)) = QueueCards (map (renderCard (st w)) (queue (st w))))
 \<and> (state item = ''WORKING'' \<and> progress item = Some p \<longrightarrow>
      badgeContent (renderCard s item) = BadgeFill (max 0 (min 100 p)) (statusLabelOf item))
 \<and> (state item \<noteq> ''WORKING'' \<or> progress item = None \<longrightarrow>
      badgeContent (renderCard s item) = BadgeText (statusLabelOf item))"
  by (auto simp add: renderQueue_def queueView_def badgeContent_renderCard badgeContentFor_def progressValue_def
      clamp_commute split: option.splits)

text \<open>A progress of 137 fills the whole badge, one of -5 none of it.\<close>

theorem badge_fill_width_witness:
  "queueSection (page (renderQueue (sampleWorld [sampleItem ''WORKING'' (Some 137)]))) =
     QueueCards [renderCard (st (sampleWorld [sampleItem ''WORKING'' (Some 137)])) (sampleItem ''WORKING'' (Some 137))]
 \<and> badgeContent (renderCard initialState (sampleItem ''WORKING'' (Some 137))) = BadgeFill 100 ''Saving''
 \<and> badgeContent (renderCard initialState (sampleItem ''WORKING'' (Some (- 5)))) = BadgeFill 0 ''0%''
 \<and> badgeContent (renderCard initialState (sampleItem ''FAILED'' (Some 40))) = BadgeText ''Failed''"
proof -
  have l: "statusLabelOf (sampleItem ''WORKING'' (Some 137)) = ''Saving''"
    "statusLabelOf (sampleItem ''WORKING'' (Some (- 5))) = ''0%''"
    "statusLabelOf (sampleItem ''FAILED'' (Some 40)) = ''Failed''"
    by (simp_all add: statusLabelOf_def stateLabel_def progressValue_def sampleItem_def
        Math_round_def numberToString_def digitsOf.simps)
  show ?thesis
    using badge_fill_width [of "sampleWorld [sampleItem ''WORKING'' (Some 137)]"
        "sampleItem ''WORKING'' (Some 137)" 137 initialState]
      badge_fill_width [of "sampleWorld [sampleItem ''WORKING'' (Some 137)]"
        "sampleItem ''WORKING'' (Some (- 5))" "- 5" initialState]
      badge_fill_width [of "sampleWorld [sampleItem ''WORKING'' (Some 137)]"
        "sampleItem ''FAILED'' (Some 40)" 40 initialState]
      l
    by (simp add: sampleItem_def sampleWorld_def initialWorld_def)
qed

subsection \<open>Refreshing the queue\<close>

lemma loadQueue_failed: "\<not> ok r \<Longrightarrow> loadQueue r w = issue GetQueue w"
  by (simp add: loadQueue_def fetchQueue_def)

lemma st_issue: "st (issue r w) = st w"
  by (simp add: issue_def)

lemma page_issue: "page (issue r w) = page w"
  by (simp add: issue_def)

lemma queue_loadQueue_ok: "ok r \<Longrightarrow> queue (st (loadQueue r w)) = body r"
  by (simp add: loadQueue_def fetchQueue_def Let_def st_syncPreviewPlayer st_issue)

text \<open>
  C5. When the refetch is answered by a non-success response, \<open>loadQueue\<close> leaves the
  whole of \<open>state\<close> (its \<open>queue\<close> and \<open>preview\<close> among the rest) and the page as they
  were, and so does a tick of the poll for \<open>state\<close>; a later refetch that succeeds puts
  the new snapshot in \<open>state.queue\<close>.
\<close>

theorem failed_refetch_keeps_state:
  "(\<not> ok failed \<longrightarrow>
      st (loadQueue failed w) = st w \<and> page (loadQueue failed w) = page w
    \<and> st (pollTick failed w) = st w)
 \<and> (\<not> ok failed \<and> ok fresh \<longrightarrow>
      queue (st (loadQueue fresh (loadQueue failed w))) = body fresh
    \<and> queue (st (pollTick fresh (pollTick failed w))) = body fresh)"
  by (simp add: loadQueue_failed st_issue page_issue queue_loadQueue_ok pollTick_def st_renderQueue)

text \<open>A failed refetch keeps the one working item; the next, successful one replaces it.\<close>

theorem failed_refetch_keeps_state_witness:
  "\<not> ok (failedResponse []) \<and> ok (okResponse [sampleItem ''WAITING'' None])
 \<and> queue (st (loadQueue (failedResponse []) (sampleWorld [sampleItem ''WORKING'' (Some 10)]))) =
     [sampleItem ''WORKING'' (Some 10)]
 \<and> queue (st (loadQueue (okResponse [sampleItem ''WAITING'' None])
       (loadQueue (failedResponse []) (sampleWorld [sampleItem ''WORKING'' (Some 10)])))) =
     [sampleItem ''WAITING'' None]"
  using failed_refetch_keeps_state [of "failedResponse []" "sampleWorld [sampleItem ''WORKING'' (Some 10)]"
      "okResponse [sampleItem ''WAITING'' None]"]
  by (simp add: failedResponse_def okResponse_def sampleWorld_def initialWorld_def)

lemma loadQueue_ok:
  "ok r \<Longrightarrow> loadQueue r w =
     (let w2 = (issue GetQueue w)\<lparr>st := (st w)\<lparr>queue := body r\<rparr>\<rparr>
      in if preview_id (preview (st w)) \<noteq> []
            \<and> \<not> (\<exists>item \<in> set (body r). item_id item = preview_id (preview (st w)))
         then syncPreviewPlayer False
                (w2\<lparr>st := (st w2)\<lparr>preview := \<lparr>preview_id = [], preview_url = []\<rparr>\<rparr>\<rparr>)
         else w2)"
  by (simp add: loadQueue_def fetchQueue_def Let_def st_issue)

text \<open>
  C6. After a refresh that applies a snapshot, \<open>state.preview.id\<close> is empty or the id of
  an item of \<open>state.queue\<close>. If an item was previewed and the snapshot has no item of
  that id, the preview is reset to empty \<open>id\<close> and \<open>url\<close>, the status line reads \<open>Idle\<close>,
  and the player is stopped: it is paused and, if it had a source, the source is
  removed and the element reloaded.
\<close>

theorem preview_target_in_queue:
  assumes "ok r"
  shows "(preview_id (preview (st (loadQueue r w))) = []
          \<or> (\<exists>item \<in> set (queue (st (loadQueue r w))).
                item_id item = preview_id (preview (st (loadQueue r w)))))
       \<and> (preview_id (preview (st w)) \<noteq> []
          \<and> \<not> (\<exists>item \<in> set (body r). item_id item = preview_id (preview (st w))) \<longrightarrow>
            preview (st (loadQueue r w)) = \<lparr>preview_id = [], preview_url = []\<rparr>
          \<and> previewStatus (page (loadQueue r w)) = Idle
          \<and> src (previewPlayer (page (loadQueue r w))) = []
          \<and> calls (previewPlayer (page (loadQueue r w))) =
              calls (previewPlayer (page w)) @ Pause #
                (if src (previewPlayer (page w)) \<noteq> [] then [RemoveSrc, Load] else []))"
  by (auto simp add: loadQueue_ok [OF assms] Let_def st_syncPreviewPlayer st_issue page_issue
      syncPreviewPlayer_def syncPlayer_def nextSrcOf_def previewLabel_def)

text \<open>The previewed item is deleted on the server: the next snapshot stops the player.\<close>

theorem preview_target_in_queue_witness:
  "ok (okResponse ([] :: QueueItem list))
 \<and> preview_id (preview (st previewingWorld)) = ''job-1''
 \<and> preview (st (loadQueue (okResponse []) previewingWorld)) = \<lparr>preview_id = [], preview_url = []\<rparr>
 \<and> src (previewPlayer (page (loadQueue (okResponse []) previewingWorld))) = []
 \<and> calls (previewPlayer (page (loadQueue (okResponse []) previewingWorld))) =
      [SetSrc (API_BASE @ ''/preview/job-1''), Play, Pause, RemoveSrc, Load]
 \<and> preview_id (preview (st (loadQueue (okResponse [sampleItem ''COMPLETE'' None]) previewingWorld))) = ''job-1''"
proof -
  have o: "ok (okResponse ([] :: QueueItem list))" "ok (okResponse [sampleItem ''COMPLETE'' None])"
    by (simp_all add: okResponse_def)
  have k: "preview_id (preview (st (loadQueue (okResponse [sampleItem ''COMPLETE'' None]) previewingWorld))) = ''job-1''"
    by (simp add: loadQueue_def fetchQueue_def Let_def st_issue previewingWorld_def sampleItem_def
        okResponse_def)
  from preview_target_in_queue [OF o(1), of previewingWorld] o k
  show ?thesis
    by (simp add: previewingWorld_def okResponse_def API_BASE_def)
qed

subsection \<open>Download All\<close>

lemma dir_loadQueue: "dir (st (loadQueue r w)) = dir (st w)"
  by (simp add: loadQueue_def fetchQueue_def Let_def st_issue st_syncPreviewPlayer)

lemma dir_setBusy: "dir (st (setBusy a m w)) = dir (st w)"
  by (cases a) (simp_all add: st_setBusy_True st_setBusy_False)

text \<open>
  C10. With an empty \<open>state.dir\<close>, \<open>downloadAll\<close> returns at once: no request is issued and
  nothing changes. With a directory, it issues the one download request, for the
  selected format. \<open>state.dir\<close> is empty after \<open>loadDefaultDir\<close> whenever the
  default-directory request is answered by a non-success response, and no later action
  (a poll tick, add, import, delete, clear, preview) writes to it.
\<close>

theorem download_needs_directory:
  "(dir (st w) = [] \<longrightarrow> downloadAll r w = w)
 \<and> (dir (st w) \<noteq> [] \<longrightarrow>
      downloadAll r w = w\<lparr>trace := trace w @ [Fetch (PostDownloadAll (format (st w)))]\<rparr>)
 \<and> (\<not> ok d \<longrightarrow> dir (st (loadDefaultDir d w)) = [])
 \<and> (ok d \<longrightarrow> dir (st (loadDefaultDir d w)) = path (body d))
 \<and> dir (st (pollTick q w)) = dir (st w)
 \<and> dir (st (addQueue u a q w)) = dir (st w)
 \<and> dir (st (importQueue file a q w)) = dir (st w)
 \<and> dir (st (deleteItem i a q w)) = dir (st w)
 \<and> dir (st (clearQueue mode a q w)) = dir (st w)
 \<and> dir (st (previewItem i p w)) = dir (st w)"
proof -
  have 1: "(dir (st w) = [] \<longrightarrow> downloadAll r w = w)
    \<and> (dir (st w) \<noteq> [] \<longrightarrow>
      downloadAll r w = w\<lparr>trace := trace w @ [Fetch (PostDownloadAll (format (st w)))]\<rparr>)"
    by (simp add: downloadAll_def postDownloadAll_def issue_def)
  have 2: "(\<not> ok d \<longrightarrow> dir (st (loadDefaultDir d w)) = [])
    \<and> (ok d \<longrightarrow> dir (st (loadDefaultDir d w)) = path (body d))"
    by (simp add: loadDefaultDir_def fetchDefaultDir_def issue_def Let_def)
  have 3: "dir (st (pollTick q w)) = dir (st w)" "dir (st (deleteItem i a q w)) = dir (st w)"
    "dir (st (clearQueue mode a q w)) = dir (st w)"
    by (simp_all add: pollTick_def deleteItem_def clearQueue_def deleteQueueItem_def
        postClearQueue_def st_renderQueue dir_loadQueue st_issue)
  have 4: "dir (st (addQueue u a q w)) = dir (st w)" "dir (st (importQueue file a q w)) = dir (st w)"
    by (simp_all add: addQueue_def importQueue_def postAddQueue_def postImportQueue_def Let_def
        st_render st_renderQueue dir_setBusy dir_loadQueue st_issue)
  have 5: "dir (st (previewItem i p w)) = dir (st w)"
    by (simp add: previewItem_def fetchPreview_def Let_def st_syncPreviewPlayer st_issue)
  from 1 2 3 4 5 show ?thesis by simp
qed

text \<open>Without the directory no request leaves; with it, the download request follows.\<close>

theorem download_needs_directory_witness:
  "\<not> ok (failedResponse \<lparr>path = ''C:/Music''\<rparr>)
 \<and> downloadAll (okResponse ()) (loadDefaultDir (failedResponse \<lparr>path = ''C:/Music''\<rparr>) initialWorld) =
     loadDefaultDir (failedResponse \<lparr>path = ''C:/Music''\<rparr>) initialWorld
 \<and> trace (downloadAll (okResponse ()) (loadDefaultDir (okResponse \<lparr>path = ''C:/Music''\<rparr>) initialWorld)) =
     [Fetch GetDefaultDir, Fetch (PostDownloadAll ''flac'')]"
proof -
  have f: "\<not> ok (failedResponse \<lparr>path = ''C:/Music''\<rparr>)" by (simp add: failedResponse_def)
  have g: "ok (okResponse \<lparr>path = ''C:/Music''\<rparr>)" by (simp add: okResponse_def)
  have l: "trace (loadDefaultDir (okResponse \<lparr>path = ''C:/Music''\<rparr>) initialWorld) = [Fetch GetDefaultDir]"
    "format (st (loadDefaultDir (okResponse \<lparr>path = ''C:/Music''\<rparr>) initialWorld)) = ''flac''"
    by (simp_all add: loadDefaultDir_def fetchDefaultDir_def Let_def issue_def okResponse_def
        initialWorld_def initialState_def)
  have e: "dir (st (loadDefaultDir (failedResponse \<lparr>path = ''C:/Music''\<rparr>) initialWorld)) = []"
    using download_needs_directory [of initialWorld "okResponse ()" "failedResponse \<lparr>path = ''C:/Music''\<rparr>"] f
    by simp
  have n: "dir (st (loadDefaultDir (okResponse \<lparr>path = ''C:/Music''\<rparr>) initialWorld)) \<noteq> []"
    using download_needs_directory [of initialWorld "okResponse ()" "okResponse \<lparr>path = ''C:/Music''\<rparr>"] g
    by (simp add: okResponse_def)
  from download_needs_directory [of "loadDefaultDir (failedResponse \<lparr>path = ''C:/Music''\<rparr>) initialWorld"
      "okResponse ()" "failedResponse \<lparr>path = ''C:/Music''\<rparr>"]
    download_needs_directory [of "loadDefaultDir (okResponse \<lparr>path = ''C:/Music''\<rparr>) initialWorld"
      "okResponse ()" "okResponse \<lparr>path = ''C:/Music''\<rparr>"]
    f e n l
  show ?thesis by simp
qed

subsection \<open>Requests and re-renders of the mutating actions\<close>

lemma trace_renderQueue: "trace (renderQueue w) = trace w @ [RenderQueue]"
  by (simp add: renderQueue_def)

lemma trace_syncPreviewPlayer: "trace (syncPreviewPlayer a w) = trace w"
  by (simp add: syncPreviewPlayer_def)

lemma trace_render: "trace (render w) = trace w @ [RenderQueue]"
  by (simp add: render_def Let_def trace_renderQueue trace_syncPreviewPlayer)

lemma trace_setBusy: "trace (setBusy a m w) = trace w @ [RenderQueue]"
  by (simp add: setBusy_def Let_def trace_render)

lemma trace_issue: "trace (issue r w) = trace w @ [Fetch r]"
  by (simp add: issue_def)

lemma trace_loadQueue: "trace (loadQueue r w) = trace w @ [Fetch GetQueue]"
  by (simp add: loadQueue_def fetchQueue_def Let_def trace_issue trace_syncPreviewPlayer)

lemma queueSection_renderQueue: "queueSection (page (renderQueue w)) = queueView (st w)"
  by (simp add: renderQueue_def)

lemma queueSection_render: "queueSection (page (render w)) = queueView (st w)"
  by (simp add: render_def Let_def queueSection_renderQueue st_syncPreviewPlayer)

lemma queueSection_setBusy: "queueSection (page (setBusy a m w)) = queueView (st (setBusy a m w))"
  by (simp add: setBusy_def Let_def queueSection_render st_render)

lemma queue_setBusy: "queue (st (setBusy a m w)) = queue (st w)"
  by (cases a) (simp_all add: st_setBusy_True st_setBusy_False)

text \<open>
  C2, as stated, fails for an add that the server does not accept: the request is the
  only one issued, and no refetch follows it (the queue section is redrawn, from the
  state as it was, by the renders of the busy banner and of the adding flag).
\<close>

theorem failed_add_skips_refetch:
  "\<not> ok (failedResponse ())
 \<and> trace (addQueue ''https://youtu.be/abc123'' (failedResponse ()) (okResponse []) initialWorld) =
     [RenderQueue, RenderQueue, Fetch (PostAddQueue ''https://youtu.be/abc123''), RenderQueue, RenderQueue]
 \<and> Fetch GetQueue \<notin> set (trace (addQueue ''https://youtu.be/abc123'' (failedResponse ()) (okResponse []) initialWorld))"
  by (simp add: addQueue_def postAddQueue_def Let_def trace_render trace_setBusy trace_issue
      failedResponse_def initialWorld_def)

text \<open>
  C2, amended. Delete and clear issue the mutation request, then the queue refetch, then
  redraw the queue section, whatever the answer to the mutation request. Add and import
  do the same when the mutation request reports success; when it reports failure, no
  refetch is issued. Every one of the four actions ends with the queue section showing
  the queue of \<open>state\<close>, which is the fetched snapshot whenever a refetch was issued
  and succeeded.
\<close>

theorem mutation_sequencing:
  "trace (deleteItem i r refetched w) =
     trace w @ [Fetch (DeleteQueueItem i), Fetch GetQueue, RenderQueue]
 \<and> trace (clearQueue mode r refetched w) =
     trace w @ [Fetch (PostClearQueue mode), Fetch GetQueue, RenderQueue]
 \<and> (ok r \<longrightarrow>
      trace (addQueue u r refetched w) =
        trace w @ [RenderQueue, RenderQueue, Fetch (PostAddQueue u), Fetch GetQueue, RenderQueue,
                   RenderQueue, RenderQueue]
    \<and> trace (importQueue file r refetched w) =
        trace w @ [RenderQueue, Fetch (PostImportQueue file), Fetch GetQueue, RenderQueue,
                   RenderQueue])
 \<and> (\<not> ok r \<longrightarrow>
      trace (addQueue u r refetched w) =
        trace w @ [RenderQueue, RenderQueue, Fetch (PostAddQueue u), RenderQueue, RenderQueue]
    \<and> trace (importQueue file r refetched w) =
        trace w @ [RenderQueue, Fetch (PostImportQueue file), RenderQueue])
 \<and> queueSection (page (deleteItem i r refetched w)) = queueView (st (deleteItem i r refetched w))
 \<and> queueSection (page (clearQueue mode r refetched w)) = queueView (st (clearQueue mode r refetched w))
 \<and> queueSection (page (addQueue u r refetched w)) = queueView (st (addQueue u r refetched w))
 \<and> queueSection (page (importQueue file r refetched w)) = queueView (st (importQueue file r refetched w))
 \<and> (ok refetched \<longrightarrow>
      queue (st (deleteItem i r refetched w)) = body refetched
    \<and> queue (st (clearQueue mode r refetched w)) = body refetched
    \<and> (ok r \<longrightarrow> queue (st (addQueue u r refetched w)) = body refetched
             \<and> queue (st (importQueue file r refetched w)) = body refetched))"
proof -
  have d: "trace (deleteItem i r refetched w) =
     trace w @ [Fetch (DeleteQueueItem i), Fetch GetQueue, RenderQueue]"
    by (simp add: deleteItem_def deleteQueueItem_def trace_renderQueue trace_loadQueue trace_issue)
  have c: "trace (clearQueue mode r refetched w) =
     trace w @ [Fetch (PostClearQueue mode), Fetch GetQueue, RenderQueue]"
    by (simp add: clearQueue_def postClearQueue_def trace_renderQueue trace_loadQueue trace_issue)
  have a: "trace (addQueue u r refetched w) =
        trace w @ [RenderQueue, RenderQueue, Fetch (PostAddQueue u)] @
          (if ok r then [Fetch GetQueue, RenderQueue] else []) @ [RenderQueue, RenderQueue]"
    by (simp add: addQueue_def postAddQueue_def Let_def trace_render trace_setBusy trace_issue
        trace_renderQueue trace_loadQueue)
  have m: "trace (importQueue file r refetched w) =
        trace w @ [RenderQueue, Fetch (PostImportQueue file)] @
          (if ok r then [Fetch GetQueue, RenderQueue] else []) @ [RenderQueue]"
    by (simp add: importQueue_def postImportQueue_def Let_def trace_setBusy trace_issue
        trace_renderQueue trace_loadQueue)
  have v: "queueSection (page (deleteItem i r refetched w)) = queueView (st (deleteItem i r refetched w))"
    "queueSection (page (clearQueue mode r refetched w)) = queueView (st (clearQueue mode r refetched w))"
    "queueSection (page (addQueue u r refetched w)) = queueView (st (addQueue u r refetched w))"
    "queueSection (page (importQueue file r refetched w)) = queueView (st (importQueue file r refetched w))"
    by (simp_all add: deleteItem_def clearQueue_def addQueue_def importQueue_def Let_def
        queueSection_renderQueue queueSection_render queueSection_setBusy st_renderQueue st_render)
  have q: "ok refetched \<Longrightarrow> queue (st (deleteItem i r refetched w)) = body refetched"
    "ok refetched \<Longrightarrow> queue (st (clearQueue mode r refetched w)) = body refetched"
    "ok refetched \<Longrightarrow> ok r \<Longrightarrow> queue (st (addQueue u r refetched w)) = body refetched"
    "ok refetched \<Longrightarrow> ok r \<Longrightarrow> queue (st (importQueue file r refetched w)) = body refetched"
    by (simp_all add: deleteItem_def clearQueue_def addQueue_def importQueue_def Let_def
        postAddQueue_def postImportQueue_def
        st_renderQueue st_render queue_setBusy queue_loadQueue_ok)
  from d c a m v q show ?thesis by simp
qed

text \<open>A delete that fails still refetches; an import that fails does not; an accepted add does.\<close>

theorem mutation_sequencing_witness:
  "\<not> ok (failedResponse ()) \<and> ok (okResponse ()) \<and> ok (okResponse [sampleItem ''WAITING'' None])
 \<and> trace (deleteItem ''job-1'' (failedResponse ()) (okResponse [sampleItem ''WAITING'' None]) initialWorld) =
     [Fetch (DeleteQueueItem ''job-1''), Fetch GetQueue, RenderQueue]
 \<and> trace (importQueue ''list.csv'' (failedResponse ()) (okResponse [sampleItem ''WAITING'' None]) initialWorld) =
     [RenderQueue, Fetch (PostImportQueue ''list.csv''), RenderQueue]
 \<and> trace (addQueue ''https://youtu.be/abc123'' (okResponse ()) (okResponse [sampleItem ''WAITING'' None]) initialWorld) =
     [RenderQueue, RenderQueue, Fetch (PostAddQueue ''https://youtu.be/abc123''), Fetch GetQueue,
      RenderQueue, RenderQueue, RenderQueue]
 \<and> queue (st (addQueue ''https://youtu.be/abc123'' (okResponse ()) (okResponse [sampleItem ''WAITING'' None]) initialWorld)) =
     [sampleItem ''WAITING'' None]"
proof -
  have o: "\<not> ok (failedResponse ())" "ok (okResponse ())" "ok (okResponse [sampleItem ''WAITING'' None])"
    "body (okResponse [sampleItem ''WAITING'' None]) = [sampleItem ''WAITING'' None]"
    by (simp_all add: failedResponse_def okResponse_def)
  have t: "trace initialWorld = []" by (simp add: initialWorld_def)
  from mutation_sequencing [of "''job-1''" "failedResponse ()" "okResponse [sampleItem ''WAITING'' None]"
      initialWorld "''all''" "''https://youtu.be/abc123''" "''list.csv''"]
    mutation_sequencing [of "''job-1''" "okResponse ()" "okResponse [sampleItem ''WAITING'' None]"
      initialWorld "''all''" "''https://youtu.be/abc123''" "''list.csv''"]
    o t
  show ?thesis by simp
qed

subsection \<open>The preview player\<close>

lemma API_BASE_nonempty: "API_BASE @ u \<noteq> []"
  by (simp add: API_BASE_def)

lemma player_syncPreviewPlayer:
  "previewPlayer (page (syncPreviewPlayer a w)) =
     syncPlayer a (nextSrcOf (st w)) (previewPlayer (page w))"
  by (simp add: syncPreviewPlayer_def)

lemma fetchPreview_ok:
  "ok r \<Longrightarrow> fetchPreview i r w = (Some (body r), issue (GetPreview i) w)"
  by (simp add: fetchPreview_def Let_def)

text \<open>
  Where the address does not read back as it was assigned, the code's comparison of
  \<open>player.src\<close> with the computed address fails again at the next call, and the source
  is assigned once more, at every render while the preview lasts.
\<close>

lemma unserialised_source_is_reassigned:
  assumes "preview_url (preview (st w)) \<noteq> []"
    and "src (previewPlayer (page w)) \<noteq> API_BASE @ preview_url (preview (st w))"
    and "readBack (previewPlayer (page w)) (API_BASE @ preview_url (preview (st w))) \<noteq>
           API_BASE @ preview_url (preview (st w))"
  shows "calls (previewPlayer (page (syncPreviewPlayer b (syncPreviewPlayer a w)))) =
           calls (previewPlayer (page (syncPreviewPlayer a w))) @
             SetSrc (API_BASE @ preview_url (preview (st w))) # (if b then [Play] else [])"
  using assms
  by (simp add: player_syncPreviewPlayer st_syncPreviewPlayer syncPlayer_def nextSrcOf_def Let_def
      API_BASE_nonempty)

text \<open>
  C7. When \<open>syncPreviewPlayer\<close> runs while the player's \<open>src\<close> equals \<open>API_BASE\<close>
  followed by \<open>state.preview.url\<close>, it does not assign \<open>src\<close>; with a non-empty preview
  URL the source stays as it is and the only call made is \<open>play()\<close>, under autoplay.
  The source is assigned exactly when the preview URL is not empty and the computed
  address differs from the current one; \<open>src\<close> then reads as the platform reads the
  assigned address back. Requesting the preview of the item that is playing, with the
  same stream URL, assigns nothing either. For an address that reads back as it is
  assigned, a second call right after any call assigns nothing.
\<close>

theorem preview_idempotence:
  "(src (previewPlayer (page w)) = API_BASE @ preview_url (preview (st w)) \<longrightarrow>
      (\<forall>v. SetSrc v \<notin> set (drop (length (calls (previewPlayer (page w))))
                              (calls (previewPlayer (page (syncPreviewPlayer autoplay w)))))))
 \<and> (src (previewPlayer (page w)) = API_BASE @ preview_url (preview (st w))
      \<and> preview_url (preview (st w)) \<noteq> [] \<longrightarrow>
      src (previewPlayer (page (syncPreviewPlayer autoplay w))) = src (previewPlayer (page w))
    \<and> calls (previewPlayer (page (syncPreviewPlayer autoplay w))) =
        calls (previewPlayer (page w)) @ (if autoplay then [Play] else []))
 \<and> (src (previewPlayer (page w)) \<noteq> API_BASE @ preview_url (preview (st w))
      \<and> preview_url (preview (st w)) \<noteq> [] \<longrightarrow>
      src (previewPlayer (page (syncPreviewPlayer autoplay w))) =
        readBack (previewPlayer (page w)) (API_BASE @ preview_url (preview (st w)))
    \<and> calls (previewPlayer (page (syncPreviewPlayer autoplay w))) =
        calls (previewPlayer (page w)) @ SetSrc (API_BASE @ preview_url (preview (st w))) #
          (if autoplay then [Play] else []))
 \<and> (ok r \<and> url (body r) = preview_url (preview (st w)) \<and> url (body r) \<noteq> []
      \<and> src (previewPlayer (page w)) = API_BASE @ url (body r) \<longrightarrow>
      src (previewPlayer (page (previewItem i r w))) = src (previewPlayer (page w))
    \<and> calls (previewPlayer (page (previewItem i r w))) = calls (previewPlayer (page w)) @ [Play])
 \<and> (preview_url (preview (st w)) \<noteq> []
      \<and> readBack (previewPlayer (page w)) (API_BASE @ preview_url (preview (st w))) =
          API_BASE @ preview_url (preview (st w)) \<longrightarrow>
      src (previewPlayer (page (syncPreviewPlayer again (syncPreviewPlayer autoplay w)))) =
        src (previewPlayer (page (syncPreviewPlayer autoplay w)))
    \<and> calls (previewPlayer (page (syncPreviewPlayer again (syncPreviewPlayer autoplay w)))) =
        calls (previewPlayer (page (syncPreviewPlayer autoplay w))) @ (if again then [Play] else []))"
proof -
  have 1: "src (previewPlayer (page w)) = API_BASE @ preview_url (preview (st w)) \<longrightarrow>
      (\<forall>v. SetSrc v \<notin> set (drop (length (calls (previewPlayer (page w))))
                              (calls (previewPlayer (page (syncPreviewPlayer autoplay w))))))"
    by (auto simp add: player_syncPreviewPlayer syncPlayer_def nextSrcOf_def Let_def
        API_BASE_nonempty)
  have 2: "src (previewPlayer (page w)) = API_BASE @ preview_url (preview (st w))
      \<and> preview_url (preview (st w)) \<noteq> [] \<longrightarrow>
      src (previewPlayer (page (syncPreviewPlayer autoplay w))) = src (previewPlayer (page w))
    \<and> calls (previewPlayer (page (syncPreviewPlayer autoplay w))) =
        calls (previewPlayer (page w)) @ (if autoplay then [Play] else [])"
    by (simp add: player_syncPreviewPlayer syncPlayer_def nextSrcOf_def Let_def API_BASE_nonempty)
  have 3: "src (previewPlayer (page w)) \<noteq> API_BASE @ preview_url (preview (st w))
      \<and> preview_url (preview (st w)) \<noteq> [] \<longrightarrow>
      src (previewPlayer (page (syncPreviewPlayer autoplay w))) =
        readBack (previewPlayer (page w)) (API_BASE @ preview_url (preview (st w)))
    \<and> calls (previewPlayer (page (syncPreviewPlayer autoplay w))) =
        calls (previewPlayer (page w)) @ SetSrc (API_BASE @ preview_url (preview (st w))) #
          (if autoplay then [Play] else [])"
    by (simp add: player_syncPreviewPlayer syncPlayer_def nextSrcOf_def Let_def API_BASE_nonempty)
  have 4: "ok r \<and> url (body r) = preview_url (preview (st w)) \<and> url (body r) \<noteq> []
      \<and> src (previewPlayer (page w)) = API_BASE @ url (body r) \<longrightarrow>
      src (previewPlayer (page (previewItem i r w))) = src (previewPlayer (page w))
    \<and> calls (previewPlayer (page (previewItem i r w))) = calls (previewPlayer (page w)) @ [Play]"
    by (auto simp add: player_syncPreviewPlayer syncPlayer_def nextSrcOf_def Let_def
        API_BASE_nonempty previewItem_def fetchPreview_ok page_issue st_issue)
  have 5: "preview_url (preview (st w)) \<noteq> []
      \<and> readBack (previewPlayer (page w)) (API_BASE @ preview_url (preview (st w))) =
          API_BASE @ preview_url (preview (st w)) \<longrightarrow>
      src (previewPlayer (page (syncPreviewPlayer again (syncPreviewPlayer autoplay w)))) =
        src (previewPlayer (page (syncPreviewPlayer autoplay w)))
    \<and> calls (previewPlayer (page (syncPreviewPlayer again (syncPreviewPlayer autoplay w)))) =
        calls (previewPlayer (page (syncPreviewPlayer autoplay w))) @ (if again then [Play] else [])"
    by (simp add: player_syncPreviewPlayer st_syncPreviewPlayer syncPlayer_def nextSrcOf_def Let_def
        API_BASE_nonempty)
  from 1 2 3 4 5 show ?thesis by blast
qed

text \<open>
  A render while the preview plays leaves the source and the calls alone; previewing the
  same item again only calls \<open>play()\<close>; another stream URL assigns the source; a stream
  URL with a space is assigned as it is and reads back with \<open>%20\<close>.
\<close>

theorem preview_idempotence_witness:
  "src (previewPlayer (page previewingWorld)) = API_BASE @ preview_url (preview (st previewingWorld))
 \<and> src (previewPlayer (page (syncPreviewPlayer False previewingWorld))) =
      src (previewPlayer (page previewingWorld))
 \<and> calls (previewPlayer (page (syncPreviewPlayer False previewingWorld))) =
      calls (previewPlayer (page previewingWorld))
 \<and> calls (previewPlayer (page (previewItem ''job-1'' (okResponse \<lparr>url = ''/preview/job-1''\<rparr>) previewingWorld))) =
      [SetSrc (API_BASE @ ''/preview/job-1''), Play, Play]
 \<and> calls (previewPlayer (page (previewItem ''job-1'' (okResponse \<lparr>url = ''/preview/other''\<rparr>) previewingWorld))) =
      [SetSrc (API_BASE @ ''/preview/job-1''), Play, SetSrc (API_BASE @ ''/preview/other''), Play]
 \<and> calls (previewPlayer (page (syncPreviewPlayer False (syncPreviewPlayer False previewingWorld)))) =
      [SetSrc (API_BASE @ ''/preview/job-1''), Play]
 \<and> src (previewPlayer (page (syncPreviewPlayer False spacedWorld))) = API_BASE @ ''/preview/a%20b.mp3''
 \<and> calls (previewPlayer (page (syncPreviewPlayer False spacedWorld))) =
      [SetSrc (API_BASE @ ''/preview/job-1''), Play, SetSrc (API_BASE @ ''/preview/a b.mp3'')]"
proof -
  have s: "src (previewPlayer (page previewingWorld)) = API_BASE @ preview_url (preview (st previewingWorld))"
    "preview_url (preview (st previewingWorld)) = ''/preview/job-1''"
    "calls (previewPlayer (page previewingWorld)) = [SetSrc (API_BASE @ ''/preview/job-1''), Play]"
    "readBack (previewPlayer (page previewingWorld)) (API_BASE @ ''/preview/job-1'') =
       API_BASE @ ''/preview/job-1''"
    by (simp_all add: previewingWorld_def escapeSpaces_def replaceAll_def API_BASE_def)
  have o: "ok (okResponse \<lparr>url = ''/preview/job-1''\<rparr>)"
    "url (body (okResponse \<lparr>url = ''/preview/job-1''\<rparr>)) = ''/preview/job-1''"
    by (simp_all add: okResponse_def)
  have n: "calls (previewPlayer (page (previewItem ''job-1'' (okResponse \<lparr>url = ''/preview/other''\<rparr>) previewingWorld))) =
      [SetSrc (API_BASE @ ''/preview/job-1''), Play, SetSrc (API_BASE @ ''/preview/other''), Play]"
    by (simp add: previewItem_def fetchPreview_def Let_def okResponse_def player_syncPreviewPlayer
        syncPlayer_def nextSrcOf_def API_BASE_def page_issue st_issue previewingWorld_def)
  have p: "preview_url (preview (st spacedWorld)) = ''/preview/a b.mp3''"
    "src (previewPlayer (page spacedWorld)) = API_BASE @ ''/preview/job-1''"
    "calls (previewPlayer (page spacedWorld)) = [SetSrc (API_BASE @ ''/preview/job-1''), Play]"
    "readBack (previewPlayer (page spacedWorld)) (API_BASE @ ''/preview/a b.mp3'') =
       API_BASE @ ''/preview/a%20b.mp3''"
    by (simp_all add: spacedWorld_def previewingWorld_def escapeSpaces_def replaceAll_def API_BASE_def)
  have a: "src (previewPlayer (page (syncPreviewPlayer False previewingWorld))) =
      src (previewPlayer (page previewingWorld))
    \<and> calls (previewPlayer (page (syncPreviewPlayer False previewingWorld))) =
      calls (previewPlayer (page previewingWorld))
    \<and> calls (previewPlayer (page (previewItem ''job-1'' (okResponse \<lparr>url = ''/preview/job-1''\<rparr>) previewingWorld))) =
      [SetSrc (API_BASE @ ''/preview/job-1''), Play, Play]
    \<and> calls (previewPlayer (page (syncPreviewPlayer False (syncPreviewPlayer False previewingWorld)))) =
      [SetSrc (API_BASE @ ''/preview/job-1''), Play]"
    using preview_idempotence [of previewingWorld False "okResponse \<lparr>url = ''/preview/job-1''\<rparr>"
        "''job-1''" False] s o
    by simp
  have b: "src (previewPlayer (page (syncPreviewPlayer False spacedWorld))) = API_BASE @ ''/preview/a%20b.mp3''
    \<and> calls (previewPlayer (page (syncPreviewPlayer False spacedWorld))) =
      [SetSrc (API_BASE @ ''/preview/job-1''), Play, SetSrc (API_BASE @ ''/preview/a b.mp3'')]"
    using preview_idempotence [of spacedWorld False "okResponse \<lparr>url = ''/preview/job-1''\<rparr>"
        "''job-1''" False] p
    by (simp add: API_BASE_def)
  from s(1) a n b show ?thesis by blast
qed

subsection \<open>Submitting a URL\<close>

lemma urlError_setBusy: "urlError (st (setBusy a m w)) = urlError (st w)"
  by (cases a) (simp_all add: st_setBusy_True st_setBusy_False)

lemma urlError_loadQueue: "urlError (st (loadQueue r w)) = urlError (st w)"
  by (simp add: loadQueue_def fetchQueue_def Let_def st_issue st_syncPreviewPlayer)

lemma urlError_addQueue: "urlError (st (addQueue u r q w)) = urlError (st w)"
  by (simp add: addQueue_def postAddQueue_def Let_def st_render urlError_setBusy urlError_loadQueue
      st_renderQueue st_issue)

lemma trace_addQueue:
  "trace (addQueue u r q w) =
     trace w @ [RenderQueue, RenderQueue, Fetch (PostAddQueue u)] @
       (if ok r then [Fetch GetQueue, RenderQueue] else []) @ [RenderQueue, RenderQueue]"
  by (simp add: addQueue_def postAddQueue_def Let_def trace_render trace_setBusy trace_issue
      trace_renderQueue trace_loadQueue)

lemma urlInput_render: "urlInput (page (render w)) = urlInput (page w)"
  by (simp add: render_def Let_def renderQueue_def syncPreviewPlayer_def)

lemma urlErrorStatus_render:
  "urlErrorStatus (page (render w)) = \<lparr>textContent = urlError (st w), active = (urlError (st w) \<noteq> [])\<rparr>"
  by (simp add: render_def Let_def renderQueue_def syncPreviewPlayer_def)

text \<open>
  C9. Pressing Enter in the URL field and clicking the Add button leave the same state,
  the same page and the same requests, whatever the field holds: both trim the value;
  on an empty value both do nothing; on an invalid one both set the same \<open>urlError\<close>,
  show it and keep the field; on a valid one both clear \<open>urlError\<close>, run \<open>addQueue\<close>
  on the trimmed value and clear the field. Any other key does nothing.
\<close>

theorem add_paths_equivalent:
  "urlInputKeydown newURL ''Enter'' added refetched w = addBtnClick newURL added refetched w
 \<and> (trim (urlInput (page w)) = [] \<longrightarrow> addBtnClick newURL added refetched w = w)
 \<and> (trim (urlInput (page w)) \<noteq> [] \<and> \<not> isValidYoutubeUrl newURL (trim (urlInput (page w))) \<longrightarrow>
      urlError (st (addBtnClick newURL added refetched w)) = ''Please enter a valid YouTube URL.''
    \<and> urlErrorStatus (page (addBtnClick newURL added refetched w)) =
        \<lparr>textContent = ''Please enter a valid YouTube URL.'', active = True\<rparr>
    \<and> urlInput (page (addBtnClick newURL added refetched w)) = urlInput (page w)
    \<and> trace (addBtnClick newURL added refetched w) = trace w @ [RenderQueue])
 \<and> (trim (urlInput (page w)) \<noteq> [] \<and> isValidYoutubeUrl newURL (trim (urlInput (page w))) \<longrightarrow>
      urlError (st (addBtnClick newURL added refetched w)) = []
    \<and> urlInput (page (addBtnClick newURL added refetched w)) = []
    \<and> trace (addBtnClick newURL added refetched w) =
        trace w @ [RenderQueue, RenderQueue, Fetch (PostAddQueue (trim (urlInput (page w))))] @
          (if ok added then [Fetch GetQueue, RenderQueue] else []) @ [RenderQueue, RenderQueue])
 \<and> (key \<noteq> ''Enter'' \<longrightarrow> urlInputKeydown newURL key added refetched w = w)"
  by (simp add: urlInputKeydown_def addBtnClick_def Let_def st_render urlInput_render
      urlErrorStatus_render trace_render urlError_addQueue trace_addQueue)

text \<open>A padded short link is added and the field cleared; a text that is no URL is refused.\<close>

theorem add_paths_equivalent_witness:
  "trim (urlInput (page (typedWorld ''  https://youtu.be/abc123 ''))) = ''https://youtu.be/abc123''
 \<and> isValidYoutubeUrl tableParser ''https://youtu.be/abc123''
 \<and> urlInputKeydown tableParser ''Enter'' (okResponse ()) (okResponse [sampleItem ''WAITING'' None])
      (typedWorld ''  https://youtu.be/abc123 '') =
    addBtnClick tableParser (okResponse ()) (okResponse [sampleItem ''WAITING'' None])
      (typedWorld ''  https://youtu.be/abc123 '')
 \<and> trace (urlInputKeydown tableParser ''Enter'' (okResponse ()) (okResponse [sampleItem ''WAITING'' None])
      (typedWorld ''  https://youtu.be/abc123 '')) =
     [RenderQueue, RenderQueue, Fetch (PostAddQueue ''https://youtu.be/abc123''), Fetch GetQueue,
      RenderQueue, RenderQueue, RenderQueue]
 \<and> urlInput (page (urlInputKeydown tableParser ''Enter'' (okResponse ()) (okResponse [sampleItem ''WAITING'' None])
      (typedWorld ''  https://youtu.be/abc123 ''))) = []
 \<and> \<not> isValidYoutubeUrl tableParser (trim (urlInput (page (typedWorld ''not a url''))))
 \<and> urlError (st (urlInputKeydown tableParser ''Enter'' (okResponse ()) (okResponse [])
      (typedWorld ''not a url''))) = ''Please enter a valid YouTube URL.''"
proof -
  have t: "trim (urlInput (page (typedWorld ''  https://youtu.be/abc123 ''))) = ''https://youtu.be/abc123''"
    "trim (urlInput (page (typedWorld ''not a url''))) = ''not a url''"
    by (simp_all add: typedWorld_def trim_def isSpace_def)
  have v: "isValidYoutubeUrl tableParser ''https://youtu.be/abc123''"
    "\<not> isValidYoutubeUrl tableParser ''not a url''"
    by (simp_all add: isValidYoutubeUrl_def tableParser_def standardParses_def lower_hosts
        removeFirst_def)
  have o: "ok (okResponse ())" "trace (typedWorld ''  https://youtu.be/abc123 '') = []"
    by (simp_all add: okResponse_def typedWorld_def initialWorld_def)
  from add_paths_equivalent [of tableParser "okResponse ()" "okResponse [sampleItem ''WAITING'' None]"
      "typedWorld ''  https://youtu.be/abc123 ''" "''Enter''"]
    add_paths_equivalent [of tableParser "okResponse ()" "okResponse []"
      "typedWorld ''not a url''" "''Enter''"]
    t v o
  show ?thesis by simp
qed

end
